theory Spec2Isabelle
  imports Complex_Main "HOL-Library.Stream" "HOL-Library.Product_Lexorder" "HOL-Library.Multiset"
begin

section \<open>Values of the program\<close>

text \<open>
  An RGB colour is a triple of Python integers, a Lab coordinate a triple of floats.
  Floats are idealised as real numbers; the two infinities that the code uses as
  sentinels (\<^verbatim>\<open>float('inf')\<close>, \<^verbatim>\<open>-float('inf')\<close>) are separate values.
\<close>

type_synonym rgb = "int \<times> int \<times> int"
type_synonym lab = "real \<times> real \<times> real"

datatype error = ValueError | IndexError | TypeError | ZeroDivisionError

datatype pyfloat = NegInf | Fin real | PosInf

instantiation pyfloat :: linorder
begin

fun less_eq_pyfloat :: "pyfloat \<Rightarrow> pyfloat \<Rightarrow> bool" where
  "less_eq_pyfloat NegInf y = True"
| "less_eq_pyfloat (Fin a) NegInf = False"
| "less_eq_pyfloat (Fin a) (Fin b) = (a \<le> b)"
| "less_eq_pyfloat (Fin a) PosInf = True"
| "less_eq_pyfloat PosInf PosInf = True"
| "less_eq_pyfloat PosInf y = False"

definition less_pyfloat :: "pyfloat \<Rightarrow> pyfloat \<Rightarrow> bool" where
  "less_pyfloat x y = (x \<le> y \<and> \<not> y \<le> x)"

instance
proof
  fix x y z :: pyfloat
  show "(x < y) = (x \<le> y \<and> \<not> y \<le> x)" by (simp add: less_pyfloat_def)
  show "x \<le> x" by (cases x) simp_all
  show "x \<le> y \<Longrightarrow> y \<le> z \<Longrightarrow> x \<le> z" by (cases x; cases y; cases z) simp_all
  show "x \<le> y \<Longrightarrow> y \<le> x \<Longrightarrow> x = y" by (cases x; cases y) simp_all
  show "x \<le> y \<or> y \<le> x" by (cases x; cases y) auto
qed

end

text \<open>Numbers stored in a settings dictionary: Python integers or floats.\<close>

datatype num = IntN int | FloatN real

type_synonym settings = "string \<rightharpoonup> num"

fun num_real :: "num \<Rightarrow> real" where
  "num_real (IntN i) = real_of_int i"
| "num_real (FloatN x) = x"

text \<open>\<^verbatim>\<open>range(v)\<close> accepts an integer only; a float raises \<^verbatim>\<open>TypeError\<close>.\<close>

fun num_int :: "num \<Rightarrow> error + int" where
  "num_int (IntN i) = Inr i"
| "num_int (FloatN x) = Inl TypeError"

text \<open>\<^verbatim>\<open>settings = {}\<close> when \<^verbatim>\<open>None\<close> is passed, then \<^verbatim>\<open>settings.get(key, default)\<close>.\<close>

definition settings_get :: "settings option \<Rightarrow> string \<Rightarrow> num \<Rightarrow> num" where
  "settings_get settings key dflt =
     (case settings of None \<Rightarrow> dflt
      | Some s \<Rightarrow> (case s key of None \<Rightarrow> dflt | Some v \<Rightarrow> v))"

text \<open>The dictionary a strategy returns.\<close>

datatype pyval = ColorList "rgb list" | Float real

type_synonym result = "string \<rightharpoonup> pyval"

text \<open>Sequencing of computations that may raise.\<close>

definition bind_err :: "error + 'a \<Rightarrow> ('a \<Rightarrow> error + 'b) \<Rightarrow> error + 'b" where
  "bind_err m f = (case m of Inl e \<Rightarrow> Inl e | Inr x \<Rightarrow> f x)"

section \<open>Ambient state: the random generator and the clock\<close>

text \<open>
  The module draws from Python's global generator. It is modelled as an endless tape of
  raw draws that is threaded through every function; each library call consumes one
  draw and maps it into the range the call promises. \<^verbatim>\<open>random.random()\<close> yields
  a multiple of \<open>2 ^ 53\<close> in \<open>[0, 1)\<close>, as CPython does.
\<close>

type_synonym rng = "nat stream"

definition random_randint :: "int \<Rightarrow> int \<Rightarrow> rng \<Rightarrow> error + (int \<times> rng)" where
  "random_randint a b g =
     (if b < a then Inl ValueError
      else Inr (a + int (shd g mod nat (b - a + 1)), stl g))"

definition random_random :: "rng \<Rightarrow> real \<times> rng" where
  "random_random g = (real (shd g mod 2 ^ 53) / 2 ^ 53, stl g)"

definition random_choice :: "'a list \<Rightarrow> rng \<Rightarrow> error + ('a \<times> rng)" where
  "random_choice xs g =
     (if xs = [] then Inl IndexError
      else Inr (xs ! (shd g mod length xs), stl g))"

text \<open>
  \<^verbatim>\<open>random.sample(range(n), k)\<close>, by the pool method of the library: draw a
  position of the pool, move the last pool entry into the vacancy.
\<close>

fun sample_pool :: "nat list \<Rightarrow> nat \<Rightarrow> rng \<Rightarrow> nat list \<times> rng" where
  "sample_pool pool 0 g = ([], g)"
| "sample_pool pool (Suc k) g =
     (let j = shd g mod length pool;
          x = pool ! j;
          r = sample_pool (butlast (pool[j := last pool])) k (stl g)
      in (x # fst r, snd r))"

definition random_sample :: "nat \<Rightarrow> int \<Rightarrow> rng \<Rightarrow> error + (nat list \<times> rng)" where
  "random_sample n k g =
     (if k < 0 \<or> int n < k then Inl ValueError
      else Inr (sample_pool [0..<n] (nat k) g))"

text \<open>The two readings of \<^verbatim>\<open>time.time()\<close>: at entry and when the result is built.\<close>

type_synonym clock = "real \<times> real"

section \<open>Colour space\<close>

definition gamma_correct :: "real \<Rightarrow> real" where
  "gamma_correct c =
     (if c > 0.04045 then ((c + 0.055) / 1.055) powr 2.4 else c / 12.92)"

definition lab_f :: "real \<Rightarrow> real" where
  "lab_f t = (if t > 0.008856 then t powr (1 / 3) else (7.787 * t) + 16 / 116)"

definition rgb_to_lab :: "rgb \<Rightarrow> lab" where
  "rgb_to_lab rgb =
     (case rgb of (r0, g0, b0) \<Rightarrow>
        let r = gamma_correct (real_of_int r0 / 255);
            g = gamma_correct (real_of_int g0 / 255);
            b = gamma_correct (real_of_int b0 / 255);
            x = (r * 0.4124 + g * 0.3576 + b * 0.1805) * 100 / 95.047;
            y = (r * 0.2126 + g * 0.7152 + b * 0.0722) * 100 / 100;
            z = (r * 0.0193 + g * 0.1192 + b * 0.9505) * 100 / 108.883;
            fx = lab_f x; fy = lab_f y; fz = lab_f z
        in ((116 * fy) - 16, 500 * (fx - fy), 200 * (fy - fz)))"

definition delta_e :: "lab \<Rightarrow> lab \<Rightarrow> real" where
  "delta_e lab_a lab_b =
     (case lab_a of (l1, a1, b1) \<Rightarrow> case lab_b of (l2, a2, b2) \<Rightarrow>
        sqrt ((l1 - l2) ^ 2 + (a1 - a2) ^ 2 + (b1 - b2) ^ 2))"

text \<open>
  \<^verbatim>\<open>sort_colors\<close>: a stable sort of the positions by the key
  \<open>(-L, -a, -b)\<close>, compared as Python compares tuples.
\<close>

definition sort_key_of :: "lab \<Rightarrow> real \<times> real \<times> real" where
  "sort_key_of c = (case c of (l, a, b) \<Rightarrow> (- l, - a, - b))"

definition sort_colors :: "rgb list \<Rightarrow> rgb list" where
  "sort_colors colors =
     (let lab_colors = map rgb_to_lab colors;
          indices = sort_key (\<lambda>i. sort_key_of (lab_colors ! i)) [0..<length colors]
      in map (\<lambda>i. colors ! i) indices)"

section \<open>Shared pieces of the strategies\<close>

text \<open>\<^verbatim>\<open>xs.pop(i)\<close> for a position \<open>i \<ge> 0\<close>.\<close>

definition pop_at :: "nat \<Rightarrow> 'a list \<Rightarrow> error + ('a \<times> 'a list)" where
  "pop_at i xs =
     (if i < length xs then Inr (xs ! i, take i xs @ drop (Suc i) xs)
      else Inl IndexError)"

text \<open>\<^verbatim>\<open>[colors[i] for i in selected]\<close>.\<close>

definition select_colors :: "rgb list \<Rightarrow> nat list \<Rightarrow> error + rgb list" where
  "select_colors colors selected =
     (if list_all (\<lambda>i. i < length colors) selected
      then Inr (map (\<lambda>i. colors ! i) selected) else Inl IndexError)"

text \<open>The return statement every strategy ends with.\<close>

definition make_result :: "rgb list \<Rightarrow> clock \<Rightarrow> nat list \<Rightarrow> error + result" where
  "make_result colors clock selected =
     bind_err (select_colors colors selected) (\<lambda>selected_colors.
       Inr [''colors'' \<mapsto> ColorList (sort_colors selected_colors),
            ''time'' \<mapsto> Float ((snd clock - fst clock) * 1000)])"

text \<open>
  The nested loops of \<^verbatim>\<open>calculate_fitness\<close> visit the pairs of positions
  \<open>i < j\<close> row by row. Simulated Annealing, the Genetic Algorithm, Particle Swarm
  and Tabu Search each define this function with the same body, and Exact Minimum
  defines it under the name \<^verbatim>\<open>calculate_min_distance\<close>; the model has it once.
\<close>

fun pairs_of :: "'a list \<Rightarrow> ('a \<times> 'a) list" where
  "pairs_of [] = []"
| "pairs_of (x # xs) = map (Pair x) xs @ pairs_of xs"

definition calculate_fitness :: "lab list \<Rightarrow> nat list \<Rightarrow> pyfloat" where
  "calculate_fitness lab_colors selection =
     foldl (\<lambda>min_dist (a, b). min min_dist (Fin (delta_e (lab_colors ! a) (lab_colors ! b))))
       PosInf (pairs_of selection)"

text \<open>
  The scan of the constructive strategies: the position in \<open>available\<close> of the first
  entry with the largest score, position 0 when nothing beats \<open>-inf\<close>.
\<close>

definition best_scan :: "(nat \<Rightarrow> pyfloat) \<Rightarrow> nat list \<Rightarrow> nat" where
  "best_scan score available =
     fst (foldl (\<lambda>(best_idx, best_v) (i, idx).
                   if score idx > best_v then (i, score idx) else (best_idx, best_v))
            (0, NegInf) (enumerate 0 available))"

text \<open>
  \<^verbatim>\<open>while len(selected) < select_count\<close> of Greedy and of Max-sum sequential,
  which differ in the score only.
\<close>

function selection_loop ::
  "(nat list \<Rightarrow> nat \<Rightarrow> pyfloat) \<Rightarrow> int \<Rightarrow> nat list \<Rightarrow> nat list \<Rightarrow> error + nat list" where
  "selection_loop score select_count selected available =
     (if int (length selected) < select_count then
        (case pop_at (best_scan (score selected) available) available of
           Inl e \<Rightarrow> Inl e
         | Inr p \<Rightarrow> selection_loop score select_count (selected @ [fst p]) (snd p))
      else Inr selected)"
  by pat_completeness auto
termination
  by (relation "measure (\<lambda>(score, select_count, selected, available).
        nat (select_count - int (length selected)))") auto

declare selection_loop.simps [simp del]

section \<open>Greedy\<close>

definition calculate_min_distance :: "lab list \<Rightarrow> nat list \<Rightarrow> nat \<Rightarrow> pyfloat" where
  "calculate_min_distance lab_colors selected index =
     (if selected = [] then PosInf
      else min_list (map (\<lambda>sel_idx. Fin (delta_e (lab_colors ! index) (lab_colors ! sel_idx)))
             selected))"

text \<open>
  \<^verbatim>\<open>Select first color randomly\<close>: a position of \<open>available\<close> is drawn and
  popped. Max-sum sequential and the ants of Ant Colony start the same way.
\<close>

definition first_pick :: "nat \<Rightarrow> rng \<Rightarrow> error + ((nat \<times> nat list) \<times> rng)" where
  "first_pick n g =
     bind_err (random_randint 0 (int n - 1) g) (\<lambda>(first_idx, g').
       bind_err (pop_at (nat first_idx) [0..<n]) (\<lambda>p. Inr (p, g')))"

definition greedy_core :: "rgb list \<Rightarrow> int \<Rightarrow> rng \<Rightarrow> error + nat list" where
  "greedy_core colors select_count g =
     (let lab_colors = map rgb_to_lab colors in
      bind_err (first_pick (length colors) g) (\<lambda>(p, g').
        selection_loop (calculate_min_distance lab_colors) select_count [fst p] (snd p)))"

definition greedy_selection ::
  "rgb list \<Rightarrow> int \<Rightarrow> settings option \<Rightarrow> rng \<Rightarrow> clock \<Rightarrow> error + result" where
  "greedy_selection colors select_count settings g clock =
     bind_err (greedy_core colors select_count g) (make_result colors clock)"

section \<open>Max-sum, global and sequential\<close>

text \<open>The slice \<^verbatim>\<open>xs[:k]\<close>; a negative \<open>k\<close> counts from the end.\<close>

definition py_take :: "int \<Rightarrow> 'a list \<Rightarrow> 'a list" where
  "py_take k xs =
     (if 0 \<le> k then take (nat k) xs else take (nat (int (length xs) + k)) xs)"

definition total_distance :: "lab list \<Rightarrow> nat \<Rightarrow> real" where
  "total_distance lab_colors i =
     sum_list (map (\<lambda>j. delta_e (lab_colors ! i) (lab_colors ! j))
                 (filter (\<lambda>j. i \<noteq> j) [0..<length lab_colors]))"

text \<open>
  \<^verbatim>\<open>sort(key=lambda x: x[1], reverse=True)\<close> is a stable sort in descending
  order of the total.
\<close>

definition max_sum_global_core :: "rgb list \<Rightarrow> int \<Rightarrow> error + nat list" where
  "max_sum_global_core colors select_count =
     (let lab_colors = map rgb_to_lab colors;
          total_distances = map (\<lambda>i. (i, total_distance lab_colors i)) [0..<length colors];
          sorted_distances = sort_key (\<lambda>x. - snd x) total_distances
      in Inr (map fst (py_take select_count sorted_distances)))"

definition max_sum_distances_global ::
  "rgb list \<Rightarrow> int \<Rightarrow> settings option \<Rightarrow> rng \<Rightarrow> clock \<Rightarrow> error + result" where
  "max_sum_distances_global colors select_count settings g clock =
     bind_err (max_sum_global_core colors select_count) (make_result colors clock)"

definition calculate_total_distance :: "lab list \<Rightarrow> nat list \<Rightarrow> nat \<Rightarrow> pyfloat" where
  "calculate_total_distance lab_colors selected index =
     Fin (sum_list (map (\<lambda>sel_idx. delta_e (lab_colors ! index) (lab_colors ! sel_idx))
                      selected))"

definition max_sum_sequential_core :: "rgb list \<Rightarrow> int \<Rightarrow> rng \<Rightarrow> error + nat list" where
  "max_sum_sequential_core colors select_count g =
     (let lab_colors = map rgb_to_lab colors in
      bind_err (first_pick (length colors) g) (\<lambda>(p, g').
        selection_loop (calculate_total_distance lab_colors) select_count [fst p] (snd p)))"

definition max_sum_distances_sequential ::
  "rgb list \<Rightarrow> int \<Rightarrow> settings option \<Rightarrow> rng \<Rightarrow> clock \<Rightarrow> error + result" where
  "max_sum_distances_sequential colors select_count settings g clock =
     bind_err (max_sum_sequential_core colors select_count g) (make_result colors clock)"

section \<open>Simulated annealing\<close>

record sa_state =
  sa_current :: "nat list"
  sa_current_fitness :: pyfloat
  sa_best :: "nat list"
  sa_best_fitness :: pyfloat
  sa_temperature :: real
  sa_rng :: rng

text \<open>
  \<^verbatim>\<open>delta = neighbor_fitness - current_fitness\<close>; the difference of two equal
  infinities is not a number (\<open>None\<close>).
\<close>

fun py_sub :: "pyfloat \<Rightarrow> pyfloat \<Rightarrow> pyfloat option" where
  "py_sub (Fin a) (Fin b) = Some (Fin (a - b))"
| "py_sub PosInf PosInf = None"
| "py_sub NegInf NegInf = None"
| "py_sub PosInf y = Some PosInf"
| "py_sub NegInf y = Some NegInf"
| "py_sub (Fin a) PosInf = Some NegInf"
| "py_sub (Fin a) NegInf = Some PosInf"

text \<open>
  \<^verbatim>\<open>delta > 0 or random.random() < math.exp(delta / temperature)\<close>: the draw is
  made only when the first test fails, and the division raises on a zero temperature.
\<close>

definition sa_accept :: "pyfloat option \<Rightarrow> real \<Rightarrow> rng \<Rightarrow> error + (bool \<times> rng)" where
  "sa_accept delta temperature g =
     (case delta of
        Some PosInf \<Rightarrow> Inr (True, g)
      | Some (Fin d) \<Rightarrow>
          (if d > 0 then Inr (True, g)
           else if temperature = 0 then Inl ZeroDivisionError
           else Inr (fst (random_random g) < exp (d / temperature), snd (random_random g)))
      | Some NegInf \<Rightarrow>
          (if temperature = 0 then Inl ZeroDivisionError
           else Inr (temperature < 0, snd (random_random g)))
      | None \<Rightarrow>
          (if temperature = 0 then Inl ZeroDivisionError
           else Inr (False, snd (random_random g))))"

definition sa_step :: "lab list \<Rightarrow> int \<Rightarrow> real \<Rightarrow> sa_state \<Rightarrow> error + sa_state" where
  "sa_step lab_colors select_count cooling_rate s =
     bind_err (random_randint 0 (select_count - 1) (sa_rng s)) (\<lambda>(swap_index, g1).
     let available_indices =
           filter (\<lambda>i. i \<notin> set (sa_current s)) [0..<length lab_colors] in
     bind_err (random_choice available_indices g1) (\<lambda>(new_index, g2).
     let neighbor_solution = (sa_current s)[nat swap_index := new_index];
         neighbor_fitness = calculate_fitness lab_colors neighbor_solution in
     bind_err (sa_accept (py_sub neighbor_fitness (sa_current_fitness s)) (sa_temperature s) g2)
       (\<lambda>(accept, g3).
          Inr (if accept then
                 s\<lparr>sa_current := neighbor_solution,
                   sa_current_fitness := neighbor_fitness,
                   sa_best := (if neighbor_fitness > sa_best_fitness s
                               then neighbor_solution else sa_best s),
                   sa_best_fitness := (if neighbor_fitness > sa_best_fitness s
                                       then neighbor_fitness else sa_best_fitness s),
                   sa_temperature := sa_temperature s * cooling_rate,
                   sa_rng := g3\<rparr>
               else s\<lparr>sa_temperature := sa_temperature s * cooling_rate, sa_rng := g3\<rparr>))))"

function sa_loop ::
  "lab list \<Rightarrow> int \<Rightarrow> real \<Rightarrow> real \<Rightarrow> nat \<Rightarrow> sa_state \<Rightarrow> error + nat list" where
  "sa_loop lab_colors select_count cooling_rate min_temp i s =
     (if i < 10000 \<and> \<not> sa_temperature s \<le> min_temp then
        (case sa_step lab_colors select_count cooling_rate s of
           Inl e \<Rightarrow> Inl e
         | Inr s' \<Rightarrow> sa_loop lab_colors select_count cooling_rate min_temp (Suc i) s')
      else Inr (sa_best s))"
  by pat_completeness auto
termination
  by (relation "measure (\<lambda>(lab_colors, select_count, cooling_rate, min_temp, i, s). 10000 - i)")
    auto

declare sa_loop.simps [simp del]

definition simulated_annealing_core ::
  "rgb list \<Rightarrow> int \<Rightarrow> settings option \<Rightarrow> rng \<Rightarrow> error + nat list" where
  "simulated_annealing_core colors select_count settings g =
     (let lab_colors = map rgb_to_lab colors;
          initial_temp = num_real (settings_get settings ''initialTemp'' (IntN 1000));
          cooling_rate = num_real (settings_get settings ''coolingRate'' (FloatN 0.995));
          min_temp = num_real (settings_get settings ''minTemp'' (FloatN 0.1)) in
      bind_err (random_sample (length colors) select_count g) (\<lambda>(current_solution, g').
        let current_fitness = calculate_fitness lab_colors current_solution in
        sa_loop lab_colors select_count cooling_rate min_temp 0
          \<lparr>sa_current = current_solution, sa_current_fitness = current_fitness,
           sa_best = current_solution, sa_best_fitness = current_fitness,
           sa_temperature = initial_temp, sa_rng = g'\<rparr>))"

definition simulated_annealing ::
  "rgb list \<Rightarrow> int \<Rightarrow> settings option \<Rightarrow> rng \<Rightarrow> clock \<Rightarrow> error + result" where
  "simulated_annealing colors select_count settings g clock =
     bind_err (simulated_annealing_core colors select_count settings g)
       (make_result colors clock)"

section \<open>K-means++ seeding\<close>

text \<open>
  The list of centres is never empty where the distance is asked for (it holds the
  first centre from the start), so the \<^verbatim>\<open>if not centers\<close> guard of the source
  never fires and the minimum is the one of a non-empty list.
\<close>

definition min_distance_to_centers :: "lab list \<Rightarrow> nat \<Rightarrow> nat list \<Rightarrow> real" where
  "min_distance_to_centers lab_colors point centers =
     min_list (map (\<lambda>center. delta_e (lab_colors ! point) (lab_colors ! center)) centers)"

text \<open>
  The roulette wheel: \<^verbatim>\<open>while random_val > 0 and selected_index < len(distances)\<close>.
  When the subtraction leaves nothing, the index stays and the next test ends the loop.
\<close>

function kmeans_roulette :: "real list \<Rightarrow> nat list \<Rightarrow> real \<Rightarrow> nat \<Rightarrow> nat" where
  "kmeans_roulette distances selected random_val selected_index =
     (if random_val > 0 \<and> selected_index < length distances then
        (let random_val' = (if selected_index \<notin> set selected
                            then random_val - distances ! selected_index else random_val)
         in if random_val' > 0
            then kmeans_roulette distances selected random_val' (Suc selected_index)
            else selected_index)
      else selected_index)"
  by pat_completeness auto
termination
  by (relation "measure (\<lambda>(distances, selected, random_val, selected_index).
        length distances - selected_index)") auto

declare kmeans_roulette.simps [simp del]

definition kmeans_distances :: "lab list \<Rightarrow> nat list \<Rightarrow> real list" where
  "kmeans_distances lab_colors selected =
     map (\<lambda>i. if i \<in> set selected then 0
              else (let dist = min_distance_to_centers lab_colors i selected in dist * dist))
       [0..<length lab_colors]"

function kmeans_loop :: "lab list \<Rightarrow> int \<Rightarrow> nat list \<Rightarrow> rng \<Rightarrow> error + nat list" where
  "kmeans_loop lab_colors select_count selected g =
     (if int (length selected) < select_count then
        (let distances = kmeans_distances lab_colors selected;
             total = sum_list distances in
         if total = 0 then
           (case random_choice
                   (filter (\<lambda>i. i \<notin> set selected) [0..<length lab_colors]) g of
              Inl e \<Rightarrow> Inl e
            | Inr p \<Rightarrow> kmeans_loop lab_colors select_count (selected @ [fst p]) (snd p))
         else
           kmeans_loop lab_colors select_count
             (selected @ [kmeans_roulette distances selected (fst (random_random g) * total) 0])
             (snd (random_random g)))
      else Inr selected)"
  by pat_completeness auto
termination
  by (relation "measure (\<lambda>(lab_colors, select_count, selected, g).
        nat (select_count - int (length selected)))") auto

declare kmeans_loop.simps [simp del]

definition kmeans_core :: "rgb list \<Rightarrow> int \<Rightarrow> rng \<Rightarrow> error + nat list" where
  "kmeans_core colors select_count g =
     (let lab_colors = map rgb_to_lab colors in
      bind_err (random_randint 0 (int (length colors) - 1) g) (\<lambda>(first, g').
        kmeans_loop lab_colors select_count [nat first] g'))"

definition kmeans_plus_plus_selection ::
  "rgb list \<Rightarrow> int \<Rightarrow> settings option \<Rightarrow> rng \<Rightarrow> clock \<Rightarrow> error + result" where
  "kmeans_plus_plus_selection colors select_count settings g clock =
     bind_err (kmeans_core colors select_count g) (make_result colors clock)"

section \<open>Genetic algorithm\<close>

text \<open>\<^verbatim>\<open>[random.sample(range(n), k) for _ in range(m)]\<close>.\<close>

fun sample_many :: "nat \<Rightarrow> nat \<Rightarrow> int \<Rightarrow> rng \<Rightarrow> error + (nat list list \<times> rng)" where
  "sample_many 0 n k g = Inr ([], g)"
| "sample_many (Suc m) n k g =
     bind_err (random_sample n k g) (\<lambda>(individual, g').
       bind_err (sample_many m n k g') (\<lambda>(rest, g'').
         Inr (individual # rest, g'')))"

text \<open>\<^verbatim>\<open>max(xs, key=f)\<close> on a non-empty list: the first element with the largest key.\<close>

definition max_by :: "('a \<Rightarrow> pyfloat) \<Rightarrow> 'a list \<Rightarrow> 'a" where
  "max_by f xs = foldl (\<lambda>b y. if f y > f b then y else b) (hd xs) (tl xs)"

text \<open>\<^verbatim>\<open>fitnesses.index(max(fitnesses))\<close> on a non-empty list.\<close>

definition max_fitness_index_of :: "pyfloat list \<Rightarrow> nat" where
  "max_fitness_index_of fitnesses =
     max_by (\<lambda>i. fitnesses ! i) [0..<length fitnesses]"

text \<open>Three \<^verbatim>\<open>random.randint(0, population_size - 1)\<close> draws.\<close>

definition tournament :: "int \<Rightarrow> rng \<Rightarrow> error + (nat list \<times> rng)" where
  "tournament population_size g =
     bind_err (random_randint 0 (population_size - 1) g) (\<lambda>(a, g1).
     bind_err (random_randint 0 (population_size - 1) g1) (\<lambda>(b, g2).
     bind_err (random_randint 0 (population_size - 1) g2) (\<lambda>(c, g3).
       Inr ([nat a, nat b, nat c], g3))))"

text \<open>\<^verbatim>\<open>while len(child) < select_count\<close>: pad with random unused indices.\<close>

function ga_fill :: "nat \<Rightarrow> int \<Rightarrow> nat list \<Rightarrow> rng \<Rightarrow> error + (nat list \<times> rng)" where
  "ga_fill n select_count child g =
     (if int (length child) < select_count then
        (case random_choice (filter (\<lambda>i. i \<notin> set child) [0..<n]) g of
           Inl e \<Rightarrow> Inl e
         | Inr p \<Rightarrow> ga_fill n select_count (child @ [fst p]) (snd p))
      else Inr (child, g))"
  by pat_completeness auto
termination
  by (relation "measure (\<lambda>(n, select_count, child, g).
        nat (select_count - int (length child)))") auto

declare ga_fill.simps [simp del]

text \<open>
  The mutation step. \<^verbatim>\<open>child[mutation_index] = ...\<close> is guarded by
  \<^verbatim>\<open>if available\<close>.
\<close>

definition ga_mutate ::
  "nat \<Rightarrow> int \<Rightarrow> real \<Rightarrow> nat list \<Rightarrow> rng \<Rightarrow> error + (nat list \<times> rng)" where
  "ga_mutate n select_count mutation_rate child g =
     (if fst (random_random g) < mutation_rate then
        bind_err (random_randint 0 (select_count - 1) (snd (random_random g)))
          (\<lambda>(mutation_index, g1).
             let available = filter (\<lambda>i. i \<notin> set child) [0..<n] in
             if available \<noteq> [] then
               bind_err (random_choice available g1) (\<lambda>(c, g2).
                 Inr (child[nat mutation_index := c], g2))
             else Inr (child, g1))
      else Inr (child, snd (random_random g)))"

text \<open>
  One child. The order in which \<^verbatim>\<open>list(set(...))\<close> lists the elements is the
  interpreter's; it is the parameter \<open>set_order\<close>, applied to the concatenation
  the set is built from.
\<close>

definition ga_child ::
  "(nat list \<Rightarrow> nat list) \<Rightarrow> nat \<Rightarrow> int \<Rightarrow> int \<Rightarrow> real \<Rightarrow> nat list list \<Rightarrow> pyfloat list \<Rightarrow>
   rng \<Rightarrow> error + (nat list \<times> rng)" where
  "ga_child set_order n select_count population_size mutation_rate population fitnesses g =
     bind_err (tournament population_size g) (\<lambda>(tournament1, g1).
     bind_err (tournament population_size g1) (\<lambda>(tournament2, g2).
     let parent1 = population ! max_by (\<lambda>i. fitnesses ! i) tournament1;
         parent2 = population ! max_by (\<lambda>i. fitnesses ! i) tournament2 in
     bind_err (random_randint 0 (select_count - 1) g2) (\<lambda>(crossover_point, g3).
     let child = set_order (take (nat crossover_point) parent1
                            @ drop (nat crossover_point) parent2) in
     bind_err (ga_fill n select_count child g3) (\<lambda>(child', g4).
       ga_mutate n select_count mutation_rate (py_take select_count child') g4))))"

function ga_new_population ::
  "(nat list \<Rightarrow> nat list) \<Rightarrow> nat \<Rightarrow> int \<Rightarrow> int \<Rightarrow> real \<Rightarrow> nat list list \<Rightarrow> pyfloat list \<Rightarrow>
   nat list list \<Rightarrow> rng \<Rightarrow> error + (nat list list \<times> rng)" where
  "ga_new_population set_order n select_count population_size mutation_rate population
     fitnesses new_population g =
     (if int (length new_population) < population_size then
        (case ga_child set_order n select_count population_size mutation_rate population
                fitnesses g of
           Inl e \<Rightarrow> Inl e
         | Inr p \<Rightarrow>
             ga_new_population set_order n select_count population_size mutation_rate
               population fitnesses (new_population @ [fst p]) (snd p))
      else Inr (new_population, g))"
  by pat_completeness auto
termination
  by (relation "measure (\<lambda>(set_order, n, select_count, population_size, mutation_rate,
        population, fitnesses, new_population, g).
        nat (population_size - int (length new_population)))") auto

declare ga_new_population.simps [simp del]

record ga_state =
  ga_population :: "nat list list"
  ga_best :: "nat list"
  ga_best_fitness :: pyfloat
  ga_rng :: rng

definition ga_generation ::
  "(nat list \<Rightarrow> nat list) \<Rightarrow> lab list \<Rightarrow> int \<Rightarrow> int \<Rightarrow> real \<Rightarrow> ga_state \<Rightarrow> error + ga_state" where
  "ga_generation set_order lab_colors select_count population_size mutation_rate s =
     (let fitnesses = map (calculate_fitness lab_colors) (ga_population s);
          max_fitness_index = max_fitness_index_of fitnesses;
          improved = fitnesses ! max_fitness_index > ga_best_fitness s in
      bind_err (ga_new_population set_order (length lab_colors) select_count population_size
                  mutation_rate (ga_population s) fitnesses [] (ga_rng s))
        (\<lambda>(new_population, g').
           Inr \<lparr>ga_population = new_population,
                ga_best = (if improved then ga_population s ! max_fitness_index else ga_best s),
                ga_best_fitness = (if improved then fitnesses ! max_fitness_index
                                   else ga_best_fitness s),
                ga_rng = g'\<rparr>))"

function ga_loop ::
  "(nat list \<Rightarrow> nat list) \<Rightarrow> lab list \<Rightarrow> int \<Rightarrow> int \<Rightarrow> real \<Rightarrow> int \<Rightarrow> nat \<Rightarrow> ga_state \<Rightarrow>
   error + (nat list \<times> pyfloat)" where
  "ga_loop set_order lab_colors select_count population_size mutation_rate generations
     generation s =
     (if int generation < generations then
        (case ga_generation set_order lab_colors select_count population_size mutation_rate s of
           Inl e \<Rightarrow> Inl e
         | Inr s' \<Rightarrow>
             ga_loop set_order lab_colors select_count population_size mutation_rate
               generations (Suc generation) s')
      else Inr (ga_best s, ga_best_fitness s))"
  by pat_completeness auto
termination
  by (relation "measure (\<lambda>(set_order, lab_colors, select_count, population_size,
        mutation_rate, generations, generation, s). nat (generations - int generation))") auto

declare ga_loop.simps [simp del]

text \<open>The search of the genetic algorithm: the best individual and its fitness.\<close>

definition genetic_algorithm_core ::
  "(nat list \<Rightarrow> nat list) \<Rightarrow> rgb list \<Rightarrow> int \<Rightarrow> settings option \<Rightarrow> rng \<Rightarrow>
   error + (nat list \<times> pyfloat)" where
  "genetic_algorithm_core set_order colors select_count settings g =
     (let lab_colors = map rgb_to_lab colors;
          mutation_rate = num_real (settings_get settings ''mutationRate'' (FloatN 0.1)) in
      bind_err (num_int (settings_get settings ''populationSize'' (IntN 100)))
        (\<lambda>population_size.
      bind_err (sample_many (nat population_size) (length colors) select_count g)
        (\<lambda>(population, g').
      if population = [] then Inl IndexError
      else
        bind_err (num_int (settings_get settings ''generations'' (IntN 100)))
          (\<lambda>generations.
             ga_loop set_order lab_colors select_count population_size mutation_rate
               generations 0
               \<lparr>ga_population = population, ga_best = hd population,
                ga_best_fitness = calculate_fitness lab_colors (hd population),
                ga_rng = g'\<rparr>))))"

definition genetic_algorithm ::
  "(nat list \<Rightarrow> nat list) \<Rightarrow> rgb list \<Rightarrow> int \<Rightarrow> settings option \<Rightarrow> rng \<Rightarrow> clock \<Rightarrow>
   error + result" where
  "genetic_algorithm set_order colors select_count settings g clock =
     bind_err (genetic_algorithm_core set_order colors select_count settings g)
       (\<lambda>best. make_result colors clock (fst best))"

section \<open>Particle swarm\<close>

record particle =
  p_position :: "nat list"
  p_best_position :: "nat list"
  p_best_fitness :: pyfloat

text \<open>
  The slot loop of one particle: \<^verbatim>\<open>r1\<close> and \<^verbatim>\<open>r2\<close> are drawn and not
  used, the third draw decides whether the slot is replaced.
\<close>

function pso_slots :: "nat \<Rightarrow> int \<Rightarrow> nat \<Rightarrow> nat list \<Rightarrow> rng \<Rightarrow> error + (nat list \<times> rng)" where
  "pso_slots n select_count i position g =
     (if int i < select_count then
        (let g1 = snd (random_random g);
             g2 = snd (random_random g1);
             u = fst (random_random g2);
             g3 = snd (random_random g2);
             available = filter (\<lambda>j. j \<notin> set position) [0..<n] in
         if u < 0.5 \<and> available \<noteq> [] then
           (case random_choice available g3 of
              Inl e \<Rightarrow> Inl e
            | Inr p \<Rightarrow> pso_slots n select_count (Suc i) (position[i := fst p]) (snd p))
         else pso_slots n select_count (Suc i) position g3)
      else Inr (position, g))"
  by pat_completeness auto
termination
  by (relation "measure (\<lambda>(n, select_count, i, position, g). nat (select_count - int i))")
    auto

declare pso_slots.simps [simp del]

text \<open>The body of \<^verbatim>\<open>for particle in particles\<close>, and the sweep over all of them.\<close>

definition pso_particle ::
  "lab list \<Rightarrow> int \<Rightarrow> particle \<Rightarrow> nat list \<times> pyfloat \<Rightarrow> rng \<Rightarrow>
   error + (particle \<times> (nat list \<times> pyfloat) \<times> rng)" where
  "pso_particle lab_colors select_count p global_best g =
     (let fitness = calculate_fitness lab_colors (p_position p);
          improved = fitness > p_best_fitness p;
          p1 = (if improved
                then p\<lparr>p_best_position := p_position p, p_best_fitness := fitness\<rparr> else p);
          global_best' = (if improved \<and> fitness > snd global_best
                          then (p_position p, fitness) else global_best) in
      bind_err (pso_slots (length lab_colors) select_count 0 (p_position p1) g)
        (\<lambda>(position', g'). Inr (p1\<lparr>p_position := position'\<rparr>, global_best', g')))"

fun pso_sweep ::
  "lab list \<Rightarrow> int \<Rightarrow> particle list \<Rightarrow> nat list \<times> pyfloat \<Rightarrow> rng \<Rightarrow>
   error + (particle list \<times> (nat list \<times> pyfloat) \<times> rng)" where
  "pso_sweep lab_colors select_count [] global_best g = Inr ([], global_best, g)"
| "pso_sweep lab_colors select_count (p # ps) global_best g =
     bind_err (pso_particle lab_colors select_count p global_best g) (\<lambda>(p', gb1, g1).
       bind_err (pso_sweep lab_colors select_count ps gb1 g1) (\<lambda>(ps', gb2, g2).
         Inr (p' # ps', gb2, g2)))"

function pso_loop ::
  "lab list \<Rightarrow> int \<Rightarrow> int \<Rightarrow> nat \<Rightarrow> particle list \<Rightarrow> nat list \<times> pyfloat \<Rightarrow> rng \<Rightarrow>
   error + (nat list \<times> pyfloat)" where
  "pso_loop lab_colors select_count max_iterations iteration particles global_best g =
     (if int iteration < max_iterations then
        (case pso_sweep lab_colors select_count particles global_best g of
           Inl e \<Rightarrow> Inl e
         | Inr r \<Rightarrow>
             pso_loop lab_colors select_count max_iterations (Suc iteration) (fst r)
               (fst (snd r)) (snd (snd r)))
      else Inr global_best)"
  by pat_completeness auto
termination
  by (relation "measure (\<lambda>(lab_colors, select_count, max_iterations, iteration, particles,
        global_best, g). nat (max_iterations - int iteration))") auto

declare pso_loop.simps [simp del]

text \<open>\<^verbatim>\<open>Find initial global best\<close>: the first particle with the largest fitness.\<close>

definition initial_global_best :: "particle list \<Rightarrow> nat list \<times> pyfloat" where
  "initial_global_best particles =
     foldl (\<lambda>gb p. if p_best_fitness p > snd gb then (p_best_position p, p_best_fitness p)
                    else gb)
       (p_best_position (hd particles), p_best_fitness (hd particles)) particles"

definition particle_swarm_core ::
  "rgb list \<Rightarrow> int \<Rightarrow> settings option \<Rightarrow> rng \<Rightarrow> error + (nat list \<times> pyfloat)" where
  "particle_swarm_core colors select_count settings g =
     (let lab_colors = map rgb_to_lab colors;
          w = settings_get settings ''inertiaWeight'' (FloatN 0.7);
          c1 = settings_get settings ''cognitiveWeight'' (FloatN 1.5);
          c2 = settings_get settings ''socialWeight'' (FloatN 1.5) in
      bind_err (num_int (settings_get settings ''numParticles'' (IntN 30))) (\<lambda>num_particles.
      bind_err (sample_many (nat num_particles) (length colors) select_count g)
        (\<lambda>(positions, g').
      let particles = map (\<lambda>position. \<lparr>p_position = position, p_best_position = position,
                             p_best_fitness = calculate_fitness lab_colors position\<rparr>)
                        positions in
      if particles = [] then Inl IndexError
      else
        bind_err (num_int (settings_get settings ''iterations'' (IntN 100)))
          (\<lambda>max_iterations.
             pso_loop lab_colors select_count max_iterations 0 particles
               (initial_global_best particles) g'))))"

definition particle_swarm_optimization ::
  "rgb list \<Rightarrow> int \<Rightarrow> settings option \<Rightarrow> rng \<Rightarrow> clock \<Rightarrow> error + result" where
  "particle_swarm_optimization colors select_count settings g clock =
     bind_err (particle_swarm_core colors select_count settings g)
       (\<lambda>best. make_result colors clock (fst best))"

section \<open>Ant colony\<close>

text \<open>
  \<^verbatim>\<open>x ** y\<close> for a float \<open>x\<close>. A zero base with a negative exponent raises.
  A negative base with a fractional exponent leaves the reals (Python goes on with a
  complex number, which the roulette wheel cannot compare with zero); the model stops
  there with \<^verbatim>\<open>TypeError\<close>. It arises only for an evaporation rate above one.
\<close>

definition py_pow :: "real \<Rightarrow> num \<Rightarrow> error + real" where
  "py_pow x y =
     (case y of
        IntN n \<Rightarrow>
          (if 0 \<le> n then Inr (x ^ nat n)
           else if x = 0 then Inl ZeroDivisionError
           else Inr (1 / x ^ nat (- n)))
      | FloatN e \<Rightarrow>
          (if x > 0 then Inr (x powr e)
           else if x = 0 then
             (if e > 0 then Inr 0 else if e = 0 then Inr 1 else Inl ZeroDivisionError)
           else if e = real_of_int \<lfloor>e\<rfloor> then
             (if 0 \<le> e then Inr (x ^ nat \<lfloor>e\<rfloor>) else Inr (1 / x ^ nat (- \<lfloor>e\<rfloor>)))
           else Inl TypeError))"

fun collect_err :: "(error + 'a) list \<Rightarrow> error + 'a list" where
  "collect_err [] = Inr []"
| "collect_err (Inl e # xs) = Inl e"
| "collect_err (Inr x # xs) = bind_err (collect_err xs) (\<lambda>ys. Inr (x # ys))"

text \<open>The entry \<^verbatim>\<open>distances[i][j]\<close> of the symmetric matrix with a zero diagonal.\<close>

definition aco_distance :: "lab list \<Rightarrow> nat \<Rightarrow> nat \<Rightarrow> real" where
  "aco_distance lab_colors i j =
     (if i = j then 0
      else if i < j then delta_e (lab_colors ! i) (lab_colors ! j)
      else delta_e (lab_colors ! j) (lab_colors ! i))"

text \<open>The weights of the available indices; \<open>solution\<close> is not empty here.\<close>

definition aco_probabilities ::
  "lab list \<Rightarrow> real list \<Rightarrow> num \<Rightarrow> num \<Rightarrow> nat list \<Rightarrow> nat list \<Rightarrow> error + real list" where
  "aco_probabilities lab_colors pheromones alpha beta solution available =
     collect_err (map (\<lambda>i.
         bind_err (py_pow (pheromones ! i) alpha) (\<lambda>pheromone.
         bind_err (py_pow (min_list (map (\<lambda>j. aco_distance lab_colors i j) solution)) beta)
           (\<lambda>heuristic. Inr (pheromone * heuristic))))
       available)"

function aco_roulette :: "real list \<Rightarrow> real \<Rightarrow> nat \<Rightarrow> nat" where
  "aco_roulette probabilities random_val selected_index =
     (if random_val > 0 \<and> selected_index < length probabilities then
        (if random_val - probabilities ! selected_index > 0
         then aco_roulette probabilities (random_val - probabilities ! selected_index)
                (Suc selected_index)
         else selected_index)
      else selected_index)"
  by pat_completeness auto
termination
  by (relation "measure (\<lambda>(probabilities, random_val, selected_index).
        length probabilities - selected_index)") auto

declare aco_roulette.simps [simp del]

text \<open>\<^verbatim>\<open>while len(solution) < select_count and available\<close>.\<close>

function aco_construct ::
  "lab list \<Rightarrow> real list \<Rightarrow> num \<Rightarrow> num \<Rightarrow> int \<Rightarrow> nat list \<Rightarrow> nat list \<Rightarrow> rng \<Rightarrow>
   error + (nat list \<times> rng)" where
  "aco_construct lab_colors pheromones alpha beta select_count solution available g =
     (if int (length solution) < select_count \<and> available \<noteq> [] then
        (case aco_probabilities lab_colors pheromones alpha beta solution available of
           Inl e \<Rightarrow> Inl e
         | Inr probabilities \<Rightarrow>
             (if sum_list probabilities = 0 then
                (case random_choice available g of
                   Inl e \<Rightarrow> Inl e
                 | Inr p \<Rightarrow>
                     aco_construct lab_colors pheromones alpha beta select_count
                       (solution @ [fst p]) (remove1 (fst p) available) (snd p))
              else
                (let selected_index =
                       available ! min (aco_roulette probabilities
                                          (fst (random_random g) * sum_list probabilities) 0)
                                       (length available - 1)
                 in aco_construct lab_colors pheromones alpha beta select_count
                      (solution @ [selected_index]) (remove1 selected_index available)
                      (snd (random_random g)))))
      else Inr (solution, g))"
  by pat_completeness auto
termination
proof (relation "measure (\<lambda>(lab_colors, pheromones, alpha, beta, select_count, solution,
        available, g). length available)", goal_cases)
  case 1
  show ?case by simp
next
  case (2 lab_colors pheromones alpha beta select_count solution available g x2 x2a)
  then have "fst x2a \<in> set available"
    by (auto simp: random_choice_def split: if_splits)
  then have "length (remove1 (fst x2a) available) < length available"
    by (auto simp: length_remove1 dest: length_pos_if_in_set)
  then show ?case by simp
next
  case (3 lab_colors pheromones alpha beta select_count solution available g x2 x)
  then have "min (aco_roulette x2 (fst (random_random g) * sum_list x2) 0)
               (length available - 1) < length available"
    by (cases available) auto
  with 3 have "x \<in> set available"
    by (metis nth_mem)
  then have "length (remove1 x available) < length available"
    by (auto simp: length_remove1 dest: length_pos_if_in_set)
  then show ?case by simp
qed

declare aco_construct.simps [simp del]

text \<open>One ant, and \<^verbatim>\<open>for ant in range(num_ants)\<close>.\<close>

definition aco_ant ::
  "lab list \<Rightarrow> real list \<Rightarrow> num \<Rightarrow> num \<Rightarrow> int \<Rightarrow> rng \<Rightarrow> error + (nat list \<times> rng)" where
  "aco_ant lab_colors pheromones alpha beta select_count g =
     bind_err (first_pick (length lab_colors) g) (\<lambda>(p, g').
       aco_construct lab_colors pheromones alpha beta select_count [fst p] (snd p) g')"

fun aco_ants ::
  "nat \<Rightarrow> lab list \<Rightarrow> real list \<Rightarrow> num \<Rightarrow> num \<Rightarrow> int \<Rightarrow> rng \<Rightarrow>
   error + (nat list list \<times> rng)" where
  "aco_ants 0 lab_colors pheromones alpha beta select_count g = Inr ([], g)"
| "aco_ants (Suc m) lab_colors pheromones alpha beta select_count g =
     bind_err (aco_ant lab_colors pheromones alpha beta select_count g) (\<lambda>(solution, g').
       bind_err (aco_ants m lab_colors pheromones alpha beta select_count g')
         (\<lambda>(solutions, g''). Inr (solution # solutions, g'')))"

text \<open>
  \<^verbatim>\<open>Evaluate solutions and update best\<close>. The fitness is the \<^verbatim>\<open>min\<close> of a
  generator over the pairs, which raises \<^verbatim>\<open>ValueError\<close> when there is no pair.
\<close>

fun aco_evaluate ::
  "lab list \<Rightarrow> int \<Rightarrow> nat list list \<Rightarrow> nat list option \<times> pyfloat \<Rightarrow>
   error + (nat list option \<times> pyfloat)" where
  "aco_evaluate lab_colors select_count [] best = Inr best"
| "aco_evaluate lab_colors select_count (solution # solutions) best =
     (if int (length solution) = select_count then
        (if pairs_of solution = [] then Inl ValueError
         else
           (let fitness = Fin (min_list (map (\<lambda>(a, b). delta_e (lab_colors ! a) (lab_colors ! b))
                                           (pairs_of solution)))
            in aco_evaluate lab_colors select_count solutions
                 (if fitness > snd best then (Some solution, fitness) else best)))
      else aco_evaluate lab_colors select_count solutions best)"

text \<open>\<^verbatim>\<open>for i in solution: pheromones[i] += deposit\<close>, for every complete solution.\<close>

definition aco_deposit :: "int \<Rightarrow> real list \<Rightarrow> nat list list \<Rightarrow> real list" where
  "aco_deposit select_count pheromones solutions =
     foldl (\<lambda>ph solution.
              if int (length solution) = select_count
              then foldl (\<lambda>ph' i. ph'[i := ph' ! i + 1 / real (length solution)]) ph solution
              else ph)
       pheromones solutions"

record aco_state =
  aco_pheromones :: "real list"
  aco_best :: "nat list option"
  aco_best_fitness :: pyfloat
  aco_rng :: rng

definition aco_iteration ::
  "lab list \<Rightarrow> int \<Rightarrow> num \<Rightarrow> real \<Rightarrow> num \<Rightarrow> num \<Rightarrow> aco_state \<Rightarrow> error + aco_state" where
  "aco_iteration lab_colors select_count num_ants evaporation_rate alpha beta s =
     bind_err (num_int num_ants) (\<lambda>ants.
     bind_err (aco_ants (nat ants) lab_colors (aco_pheromones s) alpha beta select_count
                 (aco_rng s)) (\<lambda>(solutions, g').
     bind_err (aco_evaluate lab_colors select_count solutions (aco_best s, aco_best_fitness s))
       (\<lambda>best.
          Inr \<lparr>aco_pheromones =
                  aco_deposit select_count
                    (map (\<lambda>ph. ph * (1 - evaporation_rate)) (aco_pheromones s)) solutions,
                aco_best = fst best, aco_best_fitness = snd best, aco_rng = g'\<rparr>)))"

function aco_loop ::
  "lab list \<Rightarrow> int \<Rightarrow> num \<Rightarrow> real \<Rightarrow> num \<Rightarrow> num \<Rightarrow> int \<Rightarrow> nat \<Rightarrow> aco_state \<Rightarrow>
   error + aco_state" where
  "aco_loop lab_colors select_count num_ants evaporation_rate alpha beta max_iterations
     iteration s =
     (if int iteration < max_iterations then
        (case aco_iteration lab_colors select_count num_ants evaporation_rate alpha beta s of
           Inl e \<Rightarrow> Inl e
         | Inr s' \<Rightarrow>
             aco_loop lab_colors select_count num_ants evaporation_rate alpha beta
               max_iterations (Suc iteration) s')
      else Inr s)"
  by pat_completeness auto
termination
  by (relation "measure (\<lambda>(lab_colors, select_count, num_ants, evaporation_rate, alpha, beta,
        max_iterations, iteration, s). nat (max_iterations - int iteration))") auto

declare aco_loop.simps [simp del]

definition ant_colony_core ::
  "rgb list \<Rightarrow> int \<Rightarrow> settings option \<Rightarrow> rng \<Rightarrow> error + (nat list \<times> pyfloat)" where
  "ant_colony_core colors select_count settings g =
     (let lab_colors = map rgb_to_lab colors;
          num_ants = settings_get settings ''numAnts'' (IntN 20);
          evaporation_rate = num_real (settings_get settings ''evaporationRate'' (FloatN 0.1));
          alpha = settings_get settings ''pheromoneImportance'' (IntN 1);
          beta = settings_get settings ''heuristicImportance'' (IntN 2) in
      bind_err (num_int (settings_get settings ''iterations'' (IntN 100))) (\<lambda>max_iterations.
      bind_err (aco_loop lab_colors select_count num_ants evaporation_rate alpha beta
                  max_iterations 0
                  \<lparr>aco_pheromones = replicate (length colors) 1, aco_best = None,
                   aco_best_fitness = NegInf, aco_rng = g\<rparr>) (\<lambda>s.
      case aco_best s of
        Some best_solution \<Rightarrow> Inr (best_solution, aco_best_fitness s)
      | None \<Rightarrow>
          bind_err (random_sample (length colors) select_count (aco_rng s))
            (\<lambda>(best_solution, g'). Inr (best_solution, aco_best_fitness s)))))"

definition ant_colony_optimization ::
  "rgb list \<Rightarrow> int \<Rightarrow> settings option \<Rightarrow> rng \<Rightarrow> clock \<Rightarrow> error + result" where
  "ant_colony_optimization colors select_count settings g clock =
     bind_err (ant_colony_core colors select_count settings g)
       (\<lambda>best. make_result colors clock (fst best))"

section \<open>Tabu search\<close>

text \<open>
  The tabu list is a dictionary from move keys to expiry values. A key is the text
  \<^verbatim>\<open>f"{old_color}-{new_color}"\<close> of two indices, which determines the two
  indices; the model keeps the pair.
\<close>

record tabu_state =
  tabu_current :: "nat list"
  tabu_best :: "nat list"
  tabu_best_fitness :: pyfloat
  tabu_list :: "nat \<times> nat \<rightharpoonup> real"

text \<open>
  The initial \<^verbatim>\<open>calculate_fitness(best)\<close> reads \<^verbatim>\<open>lab_colors\<close> at every
  entry of a selection of two or more indices, and raises on one out of range.
\<close>

definition calculate_fitness_checked :: "lab list \<Rightarrow> nat list \<Rightarrow> error + pyfloat" where
  "calculate_fitness_checked lab_colors selection =
     (if 2 \<le> length selection \<and> \<not> list_all (\<lambda>i. i < length lab_colors) selection
      then Inl IndexError else Inr (calculate_fitness lab_colors selection))"

text \<open>
  The moves in the order of the two \<^verbatim>\<open>for\<close> loops: position \<open>i\<close>, then every
  index \<open>j\<close> that is not in \<open>current\<close>.
\<close>

definition tabu_moves :: "nat \<Rightarrow> int \<Rightarrow> nat list \<Rightarrow> (nat \<times> nat) list" where
  "tabu_moves n select_count current =
     concat (map (\<lambda>i. map (\<lambda>j. (i, j)) (filter (\<lambda>j. j \<notin> set current) [0..<n]))
               [0..<nat select_count])"

text \<open>
  The negation of
  \<^verbatim>\<open>move_key not in tabu_list or tabu_list[move_key] <= iteration\<close>.
\<close>

definition is_tabu :: "(nat \<times> nat \<rightharpoonup> real) \<Rightarrow> nat \<Rightarrow> nat \<times> nat \<Rightarrow> bool" where
  "is_tabu tabu iteration move_key =
     (case tabu move_key of None \<Rightarrow> False | Some expiration \<Rightarrow> \<not> expiration \<le> real iteration)"

definition tabu_consider ::
  "lab list \<Rightarrow> nat \<Rightarrow> tabu_state \<Rightarrow> nat list option \<times> pyfloat \<Rightarrow> nat \<times> nat \<Rightarrow>
   nat list option \<times> pyfloat" where
  "tabu_consider lab_colors iteration s best_neighbor move =
     (let move_key = (tabu_current s ! fst move, snd move);
          neighbor = (tabu_current s)[fst move := snd move];
          fitness = calculate_fitness lab_colors neighbor in
      if (fitness > snd best_neighbor \<and> \<not> is_tabu (tabu_list s) iteration move_key)
         \<or> fitness > tabu_best_fitness s
      then (Some neighbor, fitness) else best_neighbor)"

definition tabu_scan ::
  "lab list \<Rightarrow> int \<Rightarrow> nat \<Rightarrow> tabu_state \<Rightarrow> nat list option \<times> pyfloat" where
  "tabu_scan lab_colors select_count iteration s =
     foldl (tabu_consider lab_colors iteration s) (None, NegInf)
       (tabu_moves (length lab_colors) select_count (tabu_current s))"

text \<open>
  \<^verbatim>\<open>Update tabu list\<close>: for every position the key made of the entry of the new
  \<open>current\<close> and the entry of \<open>best\<close> gets the expiry \<open>iteration + tabu_tenure\<close>.
\<close>

definition tabu_record ::
  "int \<Rightarrow> real \<Rightarrow> nat \<Rightarrow> nat list \<Rightarrow> nat list \<Rightarrow> (nat \<times> nat \<rightharpoonup> real) \<Rightarrow>
   (nat \<times> nat \<rightharpoonup> real)" where
  "tabu_record select_count tabu_tenure iteration current best tabu =
     foldl (\<lambda>m i. m((current ! i, best ! i) \<mapsto> real iteration + tabu_tenure)) tabu
       [0..<nat select_count]"

text \<open>\<^verbatim>\<open>Clean expired tabu moves\<close>.\<close>

definition tabu_clean :: "nat \<Rightarrow> (nat \<times> nat \<rightharpoonup> real) \<Rightarrow> (nat \<times> nat \<rightharpoonup> real)" where
  "tabu_clean iteration tabu =
     (\<lambda>key. case tabu key of None \<Rightarrow> None
             | Some expiration \<Rightarrow> if expiration \<le> real iteration then None else Some expiration)"

text \<open>One iteration; \<open>None\<close> is the \<^verbatim>\<open>break\<close> when no move was accepted.\<close>

definition tabu_step ::
  "lab list \<Rightarrow> int \<Rightarrow> real \<Rightarrow> nat \<Rightarrow> tabu_state \<Rightarrow> tabu_state option" where
  "tabu_step lab_colors select_count tabu_tenure iteration s =
     (case tabu_scan lab_colors select_count iteration s of
        (None, best_neighbor_fitness) \<Rightarrow> None
      | (Some best_neighbor_solution, best_neighbor_fitness) \<Rightarrow>
          (let improved = best_neighbor_fitness > tabu_best_fitness s;
               best = (if improved then best_neighbor_solution else tabu_best s)
           in Some \<lparr>tabu_current = best_neighbor_solution,
                     tabu_best = best,
                     tabu_best_fitness = (if improved then best_neighbor_fitness
                                          else tabu_best_fitness s),
                     tabu_list = tabu_clean iteration
                       (tabu_record select_count tabu_tenure iteration best_neighbor_solution
                          best (tabu_list s))\<rparr>))"

function tabu_loop ::
  "lab list \<Rightarrow> int \<Rightarrow> real \<Rightarrow> int \<Rightarrow> nat \<Rightarrow> tabu_state \<Rightarrow> tabu_state" where
  "tabu_loop lab_colors select_count tabu_tenure max_iterations iteration s =
     (if int iteration < max_iterations then
        (case tabu_step lab_colors select_count tabu_tenure iteration s of
           None \<Rightarrow> s
         | Some s' \<Rightarrow>
             tabu_loop lab_colors select_count tabu_tenure max_iterations (Suc iteration) s')
      else s)"
  by pat_completeness auto
termination
  by (relation "measure (\<lambda>(lab_colors, select_count, tabu_tenure, max_iterations, iteration, s).
        nat (max_iterations - int iteration))") auto

declare tabu_loop.simps [simp del]

text \<open>
  The state before the first iteration: \<open>current\<close> and \<open>best\<close> are the first
  \<open>select_count\<close> indices, the tabu list is empty.
\<close>

definition tabu_initial :: "int \<Rightarrow> pyfloat \<Rightarrow> tabu_state" where
  "tabu_initial select_count best_fitness =
     \<lparr>tabu_current = [0..<nat select_count], tabu_best = [0..<nat select_count],
      tabu_best_fitness = best_fitness, tabu_list = Map.empty\<rparr>"

definition tabu_search_core ::
  "rgb list \<Rightarrow> int \<Rightarrow> settings option \<Rightarrow> error + nat list" where
  "tabu_search_core colors select_count settings =
     (let lab_colors = map rgb_to_lab colors;
          tabu_tenure = num_real (settings_get settings ''tabuTenure'' (IntN 5)) in
      bind_err (calculate_fitness_checked lab_colors [0..<nat select_count]) (\<lambda>best_fitness.
      bind_err (num_int (settings_get settings ''maxIterations'' (IntN 1000)))
        (\<lambda>max_iterations.
           Inr (tabu_best (tabu_loop lab_colors select_count tabu_tenure max_iterations 0
                  (tabu_initial select_count best_fitness))))))"

definition tabu_search ::
  "rgb list \<Rightarrow> int \<Rightarrow> settings option \<Rightarrow> rng \<Rightarrow> clock \<Rightarrow> error + result" where
  "tabu_search colors select_count settings g clock =
     bind_err (tabu_search_core colors select_count settings) (make_result colors clock)"

section \<open>Exact minimum\<close>

text \<open>\<^verbatim>\<open>itertools.combinations\<close>, in its lexicographic order.\<close>

fun combinations :: "'a list \<Rightarrow> nat \<Rightarrow> 'a list list" where
  "combinations xs 0 = [[]]"
| "combinations [] (Suc k) = []"
| "combinations (x # xs) (Suc k) = map ((#) x) (combinations xs k) @ combinations xs (Suc k)"

definition exact_consider ::
  "lab list \<Rightarrow> nat list option \<times> pyfloat \<Rightarrow> nat list \<Rightarrow> nat list option \<times> pyfloat" where
  "exact_consider lab_colors best selection =
     (let min_distance = calculate_fitness lab_colors selection in
      if min_distance > snd best then (Some selection, min_distance) else best)"

text \<open>
  A negative count makes \<^verbatim>\<open>combinations\<close> raise; with no combination at all
  \<^verbatim>\<open>best_selection\<close> stays \<^verbatim>\<open>None\<close> and iterating over it raises.
\<close>

definition exact_minimum_core :: "rgb list \<Rightarrow> int \<Rightarrow> error + (nat list \<times> pyfloat)" where
  "exact_minimum_core colors select_count =
     (let lab_colors = map rgb_to_lab colors in
      if select_count < 0 then Inl ValueError
      else
        (case foldl (exact_consider lab_colors) (None, NegInf)
                (combinations [0..<length colors] (nat select_count)) of
           (None, best_min_distance) \<Rightarrow> Inl TypeError
         | (Some best_selection, best_min_distance) \<Rightarrow>
             Inr (best_selection, best_min_distance)))"

definition exact_minimum ::
  "rgb list \<Rightarrow> int \<Rightarrow> settings option \<Rightarrow> rng \<Rightarrow> clock \<Rightarrow> error + result" where
  "exact_minimum colors select_count settings g clock =
     bind_err (exact_minimum_core colors select_count)
       (\<lambda>best. make_result colors clock (fst best))"

section \<open>Dispatch\<close>

type_synonym strategy =
  "rgb list \<Rightarrow> int \<Rightarrow> settings option \<Rightarrow> rng \<Rightarrow> clock \<Rightarrow> error + result"

definition ALGORITHMS :: "(nat list \<Rightarrow> nat list) \<Rightarrow> string \<rightharpoonup> strategy" where
  "ALGORITHMS set_order =
     [''greedy'' \<mapsto> greedy_selection,
      ''max_sum_global'' \<mapsto> max_sum_distances_global,
      ''max_sum_sequential'' \<mapsto> max_sum_distances_sequential,
      ''simulated_annealing'' \<mapsto> simulated_annealing,
      ''kmeans_plus_plus'' \<mapsto> kmeans_plus_plus_selection,
      ''genetic_algorithm'' \<mapsto> genetic_algorithm set_order,
      ''particle_swarm'' \<mapsto> particle_swarm_optimization,
      ''ant_colony'' \<mapsto> ant_colony_optimization,
      ''tabu_search'' \<mapsto> tabu_search,
      ''exact_minimum'' \<mapsto> exact_minimum]"

definition select_distinct_colors ::
  "(nat list \<Rightarrow> nat list) \<Rightarrow> rgb list \<Rightarrow> int \<Rightarrow> string \<Rightarrow> settings option \<Rightarrow> rng \<Rightarrow> clock \<Rightarrow>
   error + result" where
  "select_distinct_colors set_order colors select_count algorithm settings g clock =
     (case ALGORITHMS set_order algorithm of
        None \<Rightarrow> Inl ValueError
      | Some run \<Rightarrow>
          if select_count > int (length colors) then Inl ValueError
          else run colors select_count settings g clock)"

section \<open>The canonical order, as the specification words it\<close>


text \<open>
  The distance between two neighbouring dark grays. Channel values up to 10 stay on the
  linear branches of the conversion, where Lab coordinates are rational.
\<close>

definition gray_unit :: real where
  "gray_unit = delta_e (rgb_to_lab (1, 1, 1)) (rgb_to_lab (0, 0, 0))"


section \<open>The search of each strategy\<close>


section \<open>Properties\<close>

subsection \<open>Result assembly and dispatch\<close>


lemma sort_colors_single: "sort_colors [c] = [c]"
  by (simp add: sort_colors_def)



lemma ALGORITHMS_unknown: "ALGORITHMS set_order ''rainbow'' = None"
  by (simp add: ALGORITHMS_def)

lemma ALGORITHMS_greedy: "ALGORITHMS set_order ''greedy'' = Some greedy_selection"
  by (simp add: ALGORITHMS_def)








subsection \<open>Greedy with a count of zero\<close>

lemma greedy_zero:
  assumes "colors \<noteq> []"
  shows "greedy_core colors 0 g = Inr [shd g mod length colors]"
proof -
  let ?n = "length colors"
  have n: "0 < ?n" using assms by simp
  have d: "shd g mod ?n < ?n" using n by simp
  have r: "random_randint 0 (int ?n - 1) g = Inr (int (shd g mod ?n), stl g)"
    using n by (simp add: random_randint_def nat_diff_distrib')
  show ?thesis
    using d by (simp add: greedy_core_def first_pick_def r bind_err_def pop_at_def
        selection_loop.simps)
qed

text \<open>
  Claim C10. For every non-empty pool, Greedy called through the dispatcher with
  \<open>select_count = 0\<close> is not rejected and returns a list of exactly one colour, the
  randomly chosen first pick: the first index is selected before the size of the
  selection is compared with the count.
\<close>

theorem greedy_zero_count_returns_one_color:
  assumes "colors \<noteq> []"
  shows "select_distinct_colors set_order colors 0 ''greedy'' settings g clock =
           Inr [''colors'' \<mapsto> ColorList [colors ! (shd g mod length colors)],
                ''time'' \<mapsto> Float ((snd clock - fst clock) * 1000)]"
proof -
  have "shd g mod length colors < length colors" using assms by simp
  then show ?thesis
    by (simp add: select_distinct_colors_def ALGORITHMS_def greedy_selection_def
        greedy_zero[OF assms] bind_err_def make_result_def select_colors_def sort_colors_single)
qed

theorem greedy_zero_count_returns_one_color_witness:
  "[(0,0,0),(1,1,1)] \<noteq> ([] :: rgb list) \<and>
   select_distinct_colors id [(0,0,0),(1,1,1)] 0 ''greedy'' None (sconst 1) (0, 1) =
     Inr [''colors'' \<mapsto> ColorList [(1,1,1)], ''time'' \<mapsto> Float 1000]"
  using greedy_zero_count_returns_one_color[of "[(0,0,0),(1,1,1)]" id None "sconst 1" "(0, 1)"]
  by simp

subsection \<open>What the dispatcher rejects\<close>

text \<open>
  Claim C3, as stated, fails: a count of zero is not rejected. On the pool of one black
  colour the dispatcher runs Greedy and returns that colour.
\<close>

theorem dispatch_zero_count_counterexample:
  "select_distinct_colors id [(0,0,0)] 0 ''greedy'' None (sconst 0) (0, 0) =
     Inr [''colors'' \<mapsto> ColorList [(0,0,0)], ''time'' \<mapsto> Float 0]"
  by (simp add: select_distinct_colors_def ALGORITHMS_def greedy_selection_def
        greedy_zero bind_err_def make_result_def select_colors_def sort_colors_single)

text \<open>
  Claim C3, amended. For every pool, a call through the dispatcher with a strategy name
  that is not in the table, or with a count greater than the pool size, raises
  \<^verbatim>\<open>ValueError\<close> at the dispatcher, whatever the strategies would do. A known name
  with any count up to the pool size, zero and negative counts included, is handed to
  the strategy unchanged.
\<close>

theorem dispatch_rejects_unknown_and_oversize:
  "(ALGORITHMS set_order algorithm = None \<or> int (length colors) < select_count \<longrightarrow>
      select_distinct_colors set_order colors select_count algorithm settings g clock
        = Inl ValueError) \<and>
   (\<forall>run. ALGORITHMS set_order algorithm = Some run \<and> select_count \<le> int (length colors) \<longrightarrow>
      select_distinct_colors set_order colors select_count algorithm settings g clock
        = run colors select_count settings g clock)"
  by (auto simp: select_distinct_colors_def split: option.splits)

theorem dispatch_rejects_unknown_and_oversize_witness:
  "select_distinct_colors id [(0,0,0)] 1 ''rainbow'' None (sconst 0) (0, 0) = Inl ValueError \<and>
   select_distinct_colors id [(0,0,0)] 2 ''greedy'' None (sconst 0) (0, 0) = Inl ValueError \<and>
   select_distinct_colors id [(0,0,0)] (- 1) ''greedy'' None (sconst 0) (0, 0) =
     greedy_selection [(0,0,0)] (- 1) None (sconst 0) (0, 0)"
  using dispatch_rejects_unknown_and_oversize[of id "''rainbow''" "[(0,0,0)]" 1 None "sconst 0" "(0,0)"]
    dispatch_rejects_unknown_and_oversize[of id "''greedy''" "[(0,0,0)]" 2 None "sconst 0" "(0,0)"]
    dispatch_rejects_unknown_and_oversize[of id "''greedy''" "[(0,0,0)]" "- 1" None "sconst 0" "(0,0)"]
  by (simp add: ALGORITHMS_unknown ALGORITHMS_greedy)

subsection \<open>Concrete colours\<close>

lemma gamma_dark: "0 \<le> c \<Longrightarrow> c \<le> 10 \<Longrightarrow> gamma_correct (real_of_int c / 255) = real_of_int c / 3294.6"
proof -
  assume "0 \<le> c" "c \<le> 10"
  then have "real_of_int c \<le> 10" by simp
  then have "\<not> real_of_int c / 255 > 0.04045" by simp
  then show ?thesis by (simp add: gamma_correct_def)
qed

lemma lab_f_small: "t \<le> 0.008856 \<Longrightarrow> lab_f t = 7.787 * t + 16 / 116"
  by (simp add: lab_f_def)

lemma rgb_to_lab_gray:
  assumes "0 \<le> v" "v \<le> 10"
  shows "rgb_to_lab (v, v, v) =
    (real_of_int v * (903.292 / 3294.6),
     real_of_int v * (3893.5 * (0.003 / 95.047) / 3294.6),
     real_of_int v * (1557.4 * (- 0.017 / 108.883) / 3294.6))"
proof -
  let ?r = "real_of_int v / 3294.6"
  have v: "0 \<le> real_of_int v" "real_of_int v \<le> 10" using assms by simp_all
  have x: "(?r * 0.4124 + ?r * 0.3576 + ?r * 0.1805) * 100 / 95.047 \<le> 0.008856"
    using v by simp
  have y: "(?r * 0.2126 + ?r * 0.7152 + ?r * 0.0722) * 100 / 100 \<le> 0.008856"
    using v by simp
  have z: "(?r * 0.0193 + ?r * 0.1192 + ?r * 0.9505) * 100 / 108.883 \<le> 0.008856"
    using v by simp
  show ?thesis
    unfolding rgb_to_lab_def Let_def prod.case gamma_dark[OF assms]
      lab_f_small[OF x] lab_f_small[OF y] lab_f_small[OF z]
    by (simp add: field_simps)
qed

lemma delta_e_scaled:
  "delta_e (v * a, v * b, v * c) (w * a, w * b, w * c) = \<bar>v - w\<bar> * sqrt (a\<^sup>2 + b\<^sup>2 + c\<^sup>2)"
proof -
  have "(v * a - w * a)\<^sup>2 + (v * b - w * b)\<^sup>2 + (v * c - w * c)\<^sup>2
        = (v - w)\<^sup>2 * (a\<^sup>2 + b\<^sup>2 + c\<^sup>2)"
    by (simp add: power2_eq_square algebra_simps)
  then show ?thesis
    by (simp add: delta_e_def real_sqrt_mult)
qed

lemma gray_unit_eq:
  "gray_unit = sqrt ((903.292 / 3294.6)\<^sup>2 + (3893.5 * (0.003 / 95.047) / 3294.6)\<^sup>2
                     + (1557.4 * (- 0.017 / 108.883) / 3294.6)\<^sup>2)"
  unfolding gray_unit_def
  using rgb_to_lab_gray[of 1] rgb_to_lab_gray[of 0]
    delta_e_scaled[of 1 "903.292 / 3294.6" "3893.5 * (0.003 / 95.047) / 3294.6"
      "1557.4 * (- 0.017 / 108.883) / 3294.6" 0]
  by simp

lemma gray_unit_pos: "0 < gray_unit"
  unfolding gray_unit_eq by (simp add: power2_eq_square)

lemma delta_e_gray:
  assumes "0 \<le> v" "v \<le> 10" "0 \<le> w" "w \<le> 10"
  shows "delta_e (rgb_to_lab (v, v, v)) (rgb_to_lab (w, w, w)) = \<bar>real_of_int v - real_of_int w\<bar> * gray_unit"
  unfolding rgb_to_lab_gray[OF assms(1,2)] rgb_to_lab_gray[OF assms(3,4)] gray_unit_eq
  by (rule delta_e_scaled)


lemma pyfloat_less_simps [simp]:
  "NegInf < Fin a" "NegInf < PosInf" "Fin a < PosInf"
  "\<not> Fin a < NegInf" "\<not> PosInf < y" "\<not> y < NegInf"
  "Fin a < Fin b \<longleftrightarrow> a < b"
  by (cases y; auto simp: less_pyfloat_def)+



subsection \<open>The returned dictionary\<close>




subsection \<open>Small runs of the population strategies\<close>

lemma pso_tiny:
  "particle_swarm_core [(0,0,0),(1,1,1)] 1
     (Some [''numParticles'' \<mapsto> IntN 1, ''iterations'' \<mapsto> IntN 1]) (sconst 0) = Inr ([0], PosInf)"
  by (simp add: particle_swarm_core_def settings_get_def bind_err_def random_sample_def
      Let_def calculate_fitness_def initial_global_best_def pso_loop.simps pso_particle_def
      pso_slots.simps random_random_def random_choice_def)


lemma ga_tiny:
  "genetic_algorithm_core id [(0,0,0),(1,1,1)] 2
     (Some [''populationSize'' \<mapsto> IntN 1, ''generations'' \<mapsto> IntN 1]) (sconst 0)
   = Inr ([0, 1], Fin gray_unit)"
  by (simp add: genetic_algorithm_core_def settings_get_def bind_err_def Let_def
      random_sample_def calculate_fitness_def delta_e_gray ga_loop.simps ga_generation_def
      max_fitness_index_of_def max_by_def ga_new_population.simps ga_child_def tournament_def
      random_randint_def ga_fill.simps py_take_def ga_mutate_def random_random_def
      numeral_2_eq_2)

subsection \<open>The weights of the particle swarm\<close>

text \<open>
  Claim C8. For every pool, count and tape of draws, two configurations of Particle
  Swarm that differ at most in \<^verbatim>\<open>inertiaWeight\<close>, \<^verbatim>\<open>cognitiveWeight\<close> and
  \<^verbatim>\<open>socialWeight\<close> give the same best position and fitness and the same result:
  the three values are read and never used.
\<close>

theorem particle_swarm_ignores_weights:
  assumes "\<forall>key. key \<notin> {''inertiaWeight'', ''cognitiveWeight'', ''socialWeight''} \<longrightarrow>
             s1 key = s2 key"
  shows "particle_swarm_core colors k (Some s1) g = particle_swarm_core colors k (Some s2) g \<and>
         particle_swarm_optimization colors k (Some s1) g clk =
         particle_swarm_optimization colors k (Some s2) g clk"
proof -
  have n: "settings_get (Some s1) ''numParticles'' (IntN 30) =
           settings_get (Some s2) ''numParticles'' (IntN 30)"
    using assms by (simp add: settings_get_def)
  have i: "settings_get (Some s1) ''iterations'' (IntN 100) =
           settings_get (Some s2) ''iterations'' (IntN 100)"
    using assms by (simp add: settings_get_def)
  have "particle_swarm_core colors k (Some s1) g = particle_swarm_core colors k (Some s2) g"
    unfolding particle_swarm_core_def Let_def n i ..
  then show ?thesis by (simp add: particle_swarm_optimization_def)
qed

theorem particle_swarm_ignores_weights_witness:
  "particle_swarm_optimization [(0,0,0),(1,1,1)] 1
     (Some [''numParticles'' \<mapsto> IntN 1, ''iterations'' \<mapsto> IntN 1]) (sconst 0) (0, 0)
     = Inr [''colors'' \<mapsto> ColorList [(0,0,0)], ''time'' \<mapsto> Float 0] \<and>
   particle_swarm_optimization [(0,0,0),(1,1,1)] 1
     (Some [''numParticles'' \<mapsto> IntN 1, ''iterations'' \<mapsto> IntN 1,
            ''inertiaWeight'' \<mapsto> FloatN 0.1, ''cognitiveWeight'' \<mapsto> IntN 3,
            ''socialWeight'' \<mapsto> FloatN 2.5]) (sconst 0) (0, 0)
     = Inr [''colors'' \<mapsto> ColorList [(0,0,0)], ''time'' \<mapsto> Float 0]"
proof -
  have h: "\<forall>key. key \<notin> {''inertiaWeight'', ''cognitiveWeight'', ''socialWeight''} \<longrightarrow>
     [''numParticles'' \<mapsto> IntN 1, ''iterations'' \<mapsto> IntN 1] key =
     [''numParticles'' \<mapsto> IntN 1, ''iterations'' \<mapsto> IntN 1,
      ''inertiaWeight'' \<mapsto> FloatN 0.1, ''cognitiveWeight'' \<mapsto> IntN 3,
      ''socialWeight'' \<mapsto> FloatN 2.5] key"
    by simp
  have r: "particle_swarm_optimization [(0,0,0),(1,1,1)] 1
     (Some [''numParticles'' \<mapsto> IntN 1, ''iterations'' \<mapsto> IntN 1]) (sconst 0) (0, 0)
     = Inr [''colors'' \<mapsto> ColorList [(0,0,0)], ''time'' \<mapsto> Float 0]"
    by (simp add: particle_swarm_optimization_def pso_tiny bind_err_def make_result_def
        select_colors_def sort_colors_single)
  note e = particle_swarm_ignores_weights[OF h, of "[(0,0,0),(1,1,1)]" 1 "sconst 0" "(0, 0)",
      THEN conjunct2]
  show ?thesis unfolding e[symmetric] using r by simp
qed

subsection \<open>Inputs on which a strategy does not return a selection of the asked size\<close>

lemma first_pick_nonempty:
  assumes "0 < n"
  shows "first_pick n g =
    Inr ((shd g mod n, take (shd g mod n) [0..<n] @ drop (Suc (shd g mod n)) [0..<n]), stl g)"
proof -
  have d: "shd g mod n < n" using assms by simp
  have r: "random_randint 0 (int n - 1) g = Inr (int (shd g mod n), stl g)"
    using assms by (simp add: random_randint_def nat_diff_distrib')
  show ?thesis using d by (simp add: first_pick_def r bind_err_def pop_at_def)
qed

lemma aco_ant_count_one:
  assumes "lab_colors \<noteq> []"
  shows "aco_ant lab_colors ph al be 1 g = Inr ([shd g mod length lab_colors], stl g)"
  using assms by (simp add: aco_ant_def first_pick_nonempty bind_err_def aco_construct.simps)

lemma aco_ants_count_one:
  assumes "lab_colors \<noteq> []"
  shows "\<exists>sols g'. aco_ants m lab_colors ph al be 1 g = Inr (sols, g') \<and> length sols = m \<and>
           list_all (\<lambda>s. length s = 1) sols"
proof (induction m arbitrary: g)
  case 0
  show ?case by simp
next
  case (Suc m)
  from Suc[of "stl g"] obtain sols g' where
    "aco_ants m lab_colors ph al be 1 (stl g) = Inr (sols, g')" "length sols = m"
    "list_all (\<lambda>s. length s = 1) sols" by blast
  then show ?case
    by (simp add: aco_ant_count_one[OF assms] bind_err_def)
qed

lemma aco_evaluate_count_one:
  assumes "sols \<noteq> []" "list_all (\<lambda>s. length s = 1) sols"
  shows "aco_evaluate lab_colors 1 sols best = Inl ValueError"
proof (cases sols)
  case Nil
  with assms show ?thesis by simp
next
  case (Cons s rest)
  with assms obtain x where "s = [x]" by (cases s) auto
  with Cons show ?thesis by simp
qed

lemma ant_colony_count_one:
  assumes "colors \<noteq> []"
  shows "ant_colony_core colors 1 None g = Inl ValueError"
proof -
  let ?labs = "map rgb_to_lab colors"
  have l: "?labs \<noteq> []" using assms by simp
  from aco_ants_count_one[OF l, of 20 "replicate (length colors) 1" "IntN 1" "IntN 2" g]
  obtain sols g' where
    s: "aco_ants 20 ?labs (replicate (length colors) 1) (IntN 1) (IntN 2) 1 g = Inr (sols, g')"
    "length sols = 20" "list_all (\<lambda>s. length s = 1) sols" by blast
  then have "sols \<noteq> []" by auto
  from aco_evaluate_count_one[OF this s(3)] s(1)
  have "aco_iteration ?labs 1 (IntN 20) (1 / 10) (IntN 1) (IntN 2)
          \<lparr>aco_pheromones = replicate (length colors) 1, aco_best = None,
           aco_best_fitness = NegInf, aco_rng = g\<rparr> = Inl ValueError"
    by (simp add: aco_iteration_def bind_err_def)
  then show ?thesis
    by (simp add: ant_colony_core_def settings_get_def bind_err_def aco_loop.simps)
qed

lemma kmeans_repeats_index:
  "kmeans_core [(0,0,0),(1,1,1)] 2 (sconst 0) = Inr [0, 0]"
  using gray_unit_pos
  by (simp add: kmeans_core_def random_randint_def bind_err_def kmeans_loop.simps
      kmeans_distances_def min_distance_to_centers_def delta_e_gray random_random_def
      kmeans_roulette.simps Let_def)

lemma mset_remove_slot:
  assumes "j < length pool"
  shows "mset (butlast (pool[j := last pool])) = mset pool - {#pool ! j#}"
proof -
  from assms have ne: "pool \<noteq> []" by auto
  let ?q = "pool[j := last pool]"
  have lq: "last ?q = last pool"
    using assms ne by (simp add: last_conv_nth nth_list_update)
  have qne: "?q \<noteq> []" using ne by simp
  have "mset ?q = mset (butlast ?q) + {#last ?q#}"
    using qne by (metis append_butlast_last_id mset.simps(1) mset.simps(2) mset_append add.commute union_mset_add_mset_right add.right_neutral)
  then have "mset (butlast ?q) = mset ?q - {#last pool#}"
    using lq by simp
  also have "mset ?q = add_mset (last pool) (mset pool - {#pool ! j#})"
    using assms by (simp add: mset_update)
  finally show ?thesis by simp
qed

lemma sample_pool_mset:
  "k \<le> length pool \<Longrightarrow>
     mset (fst (sample_pool pool k g)) \<subseteq># mset pool \<and> length (fst (sample_pool pool k g)) = k"
proof (induction k arbitrary: pool g)
  case 0
  then show ?case by simp
next
  case (Suc k)
  let ?j = "shd g mod length pool"
  let ?p = "butlast (pool[?j := last pool])"
  from Suc.prems have "0 < length pool" by (cases pool) simp_all
  then have j: "?j < length pool" by simp
  have m: "mset ?p = mset pool - {#pool ! ?j#}" by (rule mset_remove_slot[OF j])
  have "k \<le> length ?p" using Suc.prems by simp
  from Suc.IH[OF this, of "stl g"]
  have ih: "mset (fst (sample_pool ?p k (stl g))) \<subseteq># mset pool - {#pool ! ?j#}"
    "length (fst (sample_pool ?p k (stl g))) = k" by (simp_all add: m)
  have "pool ! ?j \<in># mset pool" using j by simp
  with ih(1) have "add_mset (pool ! ?j) (mset (fst (sample_pool ?p k (stl g)))) \<subseteq># mset pool"
    by (metis insert_DiffM mset_subset_eq_add_mset_cancel)
  with ih(2) show ?case by (simp add: Let_def)
qed

lemma sample_pool_full:
  "set (fst (sample_pool pool (length pool) g)) = set pool"
proof -
  from sample_pool_mset[of "length pool" pool g]
  have s: "mset (fst (sample_pool pool (length pool) g)) \<subseteq># mset pool"
    and l: "length (fst (sample_pool pool (length pool) g)) = length pool" by simp_all
  from l have "size (mset (fst (sample_pool pool (length pool) g))) = size (mset pool)" by simp
  with s have "mset (fst (sample_pool pool (length pool) g)) = mset pool"
    by (metis mset_subset_size subset_mset.le_less less_irrefl)
  then show ?thesis by (metis set_mset_mset)
qed

lemma annealing_full_pool:
  assumes "colors \<noteq> []"
  shows "simulated_annealing_core colors (int (length colors)) None g = Inl IndexError"
proof -
  let ?n = "length colors"
  let ?cur = "fst (sample_pool [0..<?n] ?n g)"
  have n: "0 < ?n" using assms by simp
  have "set ?cur = set [0..<?n]" using sample_pool_full[of "[0..<?n]" g] by simp
  then have av: "filter (\<lambda>i. i \<notin> set ?cur) [0..<?n] = []" by simp
  have r: "random_randint 0 (int ?n - 1) g' = Inr (int (shd g' mod ?n), stl g')" for g'
    using n by (simp add: random_randint_def nat_diff_distrib')
  show ?thesis
    by (simp add: simulated_annealing_core_def settings_get_def bind_err_def Let_def
        random_sample_def split_beta sa_loop.simps sa_step_def r av random_choice_def)
qed

text \<open>
  Claim C1 is right as a requirement and three strategies break it. On the pool of black
  and the darkest gray, through the dispatcher with default settings:
  Simulated Annealing asked for both colours raises \<^verbatim>\<open>IndexError\<close>, since no
  unselected index is left for the first neighbour and \<^verbatim>\<open>random.choice\<close> gets an
  empty list; Ant Colony asked for one colour raises \<^verbatim>\<open>ValueError\<close>, since the
  fitness of a tour is the \<^verbatim>\<open>min\<close> of an empty generator; K-means++ asked for both
  colours returns black twice when the draws are zero, since the roulette wheel then
  stops at index 0, which is already selected.
\<close>

theorem selection_invariant_failing_inputs:
  "select_distinct_colors id [(0,0,0),(1,1,1)] 2 ''simulated_annealing'' None (sconst 0) (0, 0)
     = Inl IndexError \<and>
   select_distinct_colors id [(0,0,0),(1,1,1)] 1 ''ant_colony'' None (sconst 0) (0, 0)
     = Inl ValueError \<and>
   select_distinct_colors id [(0,0,0),(1,1,1)] 2 ''kmeans_plus_plus'' None (sconst 0) (0, 0)
     = Inr [''colors'' \<mapsto> ColorList [(0,0,0),(0,0,0)], ''time'' \<mapsto> Float 0]"
proof -
  have a: "simulated_annealing_core [(0,0,0),(1,1,1)] 2 None (sconst 0) = Inl IndexError"
    using annealing_full_pool[of "[(0,0,0),(1,1,1)]" "sconst 0"] by simp
  have b: "ant_colony_core [(0,0,0),(1,1,1)] 1 None (sconst 0) = Inl ValueError"
    by (rule ant_colony_count_one) simp
  have c: "sort_colors [(0,0,0),(0,0,0)] = [(0,0,0),(0,0,0)]"
    by (simp add: sort_colors_def)
  show ?thesis
    by (simp add: select_distinct_colors_def ALGORITHMS_def simulated_annealing_def a
        ant_colony_optimization_def b kmeans_plus_plus_selection_def kmeans_repeats_index
        bind_err_def make_result_def select_colors_def c)
qed

subsection \<open>Exact minimum is optimal\<close>













lemma combinations_length: "c \<in> set (combinations xs k) \<Longrightarrow> length c = k"
  by (induction xs k arbitrary: c rule: combinations.induct) auto








subsection \<open>Tabu search: what is recorded and what is respected\<close>

text \<open>
  Claim C6 is right as a requirement on the tabu list and the code misses it. The update
  loop writes, for every position, the key made of the entry of the new current solution
  and the entry of the best solution, after the best solution has been overwritten by an
  improving move. Pool: black and the grays 6 and 10, count 2, tenure 5; the search
  starts from \<open>[0, 1]\<close> with fitness \<open>6 * gray_unit\<close>. Iteration 0 replaces index
  1 by index 2 and reaches \<open>[0, 2]\<close> with the new best fitness \<open>10 * gray_unit\<close>.
  The tabu list then holds the keys \<open>0-0\<close> and \<open>2-2\<close>, which no move can have,
  and nothing for the reverse move from 2 back to 1. Iteration 1 takes that reverse move:
  the current solution is \<open>[0, 1]\<close> again, whose fitness is below the best found so
  far.
\<close>

theorem tabu_reverse_move_taken_while_fresh:
  "calculate_fitness_checked (map rgb_to_lab [(0,0,0),(6,6,6),(10,10,10)]) [0..<nat 2]
     = Inr (Fin (6 * gray_unit)) \<and>
   tabu_current (tabu_loop (map rgb_to_lab [(0,0,0),(6,6,6),(10,10,10)]) 2 5 1 0
                   (tabu_initial 2 (Fin (6 * gray_unit)))) = [0, 2] \<and>
   tabu_best_fitness (tabu_loop (map rgb_to_lab [(0,0,0),(6,6,6),(10,10,10)]) 2 5 1 0
                   (tabu_initial 2 (Fin (6 * gray_unit)))) = Fin (10 * gray_unit) \<and>
   tabu_list (tabu_loop (map rgb_to_lab [(0,0,0),(6,6,6),(10,10,10)]) 2 5 1 0
                   (tabu_initial 2 (Fin (6 * gray_unit)))) (0, 0) = Some 5 \<and>
   tabu_list (tabu_loop (map rgb_to_lab [(0,0,0),(6,6,6),(10,10,10)]) 2 5 1 0
                   (tabu_initial 2 (Fin (6 * gray_unit)))) (2, 2) = Some 5 \<and>
   tabu_list (tabu_loop (map rgb_to_lab [(0,0,0),(6,6,6),(10,10,10)]) 2 5 1 0
                   (tabu_initial 2 (Fin (6 * gray_unit)))) (2, 1) = None \<and>
   tabu_current (tabu_loop (map rgb_to_lab [(0,0,0),(6,6,6),(10,10,10)]) 2 5 2 0
                   (tabu_initial 2 (Fin (6 * gray_unit)))) = [0, 1] \<and>
   calculate_fitness (map rgb_to_lab [(0,0,0),(6,6,6),(10,10,10)]) [0, 1] < Fin (10 * gray_unit)"
  using gray_unit_pos
  by (simp add: calculate_fitness_checked_def tabu_initial_def tabu_loop.simps tabu_step_def
      tabu_scan_def tabu_moves_def tabu_consider_def is_tabu_def tabu_record_def tabu_clean_def
      calculate_fitness_def delta_e_gray numeral_2_eq_2 Let_def)

lemma record_fold_lookup:
  "foldl (\<lambda>m i. m(f i \<mapsto> v)) t xs key = (if key \<in> f ` set xs then Some v else t key)"
  by (induction xs arbitrary: t) auto

lemma tabu_record_lookup:
  "tabu_record k tenure it cur best t key =
     (if key \<in> (\<lambda>i. (cur ! i, best ! i)) ` {..<nat k} then Some (real it + tenure) else t key)"
  unfolding tabu_record_def record_fold_lookup by (simp add: lessThan_atLeast0)

lemma update_move_unique:
  assumes "cur[i := j] = cur[i' := j']" "i < length cur" "i' < length cur"
    "j \<notin> set cur" "j' \<notin> set cur"
  shows "i = i' \<and> j = j'"
proof -
  have "cur[i := j] ! i = j" using assms(2) by simp
  then have at: "cur[i' := j'] ! i = j" using assms(1) by simp
  have "i = i'"
  proof (rule ccontr)
    assume "i \<noteq> i'"
    then have "cur[i' := j'] ! i = cur ! i" by simp
    with at have "j \<in> set cur" using assms(2) by (metis nth_mem)
    with assms(4) show False by simp
  qed
  moreover from this at assms(3) have "j = j'" by simp
  ultimately show ?thesis by simp
qed

lemma tabu_scan_fold:
  assumes "foldl (tabu_consider labs it s) acc ms = r"
  shows "r = acc \<or>
         (\<exists>m \<in> set ms.
            r = (Some ((tabu_current s)[fst m := snd m]),
                 calculate_fitness labs ((tabu_current s)[fst m := snd m])) \<and>
            (\<not> is_tabu (tabu_list s) it (tabu_current s ! fst m, snd m) \<or>
             calculate_fitness labs ((tabu_current s)[fst m := snd m]) > tabu_best_fitness s))"
  using assms
proof (induction ms arbitrary: acc)
  case Nil
  then show ?case by simp
next
  case (Cons m ms)
  let ?acc' = "tabu_consider labs it s acc m"
  from Cons.prems have "foldl (tabu_consider labs it s) ?acc' ms = r" by simp
  from Cons.IH[OF this] consider "r = ?acc'" | "\<exists>m \<in> set ms.
            r = (Some ((tabu_current s)[fst m := snd m]),
                 calculate_fitness labs ((tabu_current s)[fst m := snd m])) \<and>
            (\<not> is_tabu (tabu_list s) it (tabu_current s ! fst m, snd m) \<or>
             calculate_fitness labs ((tabu_current s)[fst m := snd m]) > tabu_best_fitness s)"
    by blast
  then show ?case
  proof cases
    case 1
    then show ?thesis
      by (auto simp: tabu_consider_def Let_def split: if_splits)
  next
    case 2
    then show ?thesis by auto
  qed
qed

lemma tabu_moves_member:
  "m \<in> set (tabu_moves n k cur) \<longleftrightarrow> fst m < nat k \<and> snd m < n \<and> snd m \<notin> set cur"
  by (cases m) (auto simp: tabu_moves_def)

lemma tabu_step_length:
  assumes "tabu_step labs k tenure it s = Some s'"
  shows "length (tabu_current s') = length (tabu_current s)"
proof -
  obtain nb f where scan: "tabu_scan labs k it s = (Some nb, f)"
    using assms by (auto simp: tabu_step_def split: prod.splits option.splits)
  then have "foldl (tabu_consider labs it s) (None, NegInf)
               (tabu_moves (length labs) k (tabu_current s)) = (Some nb, f)"
    by (simp add: tabu_scan_def)
  from tabu_scan_fold[OF this] have "length nb = length (tabu_current s)" by auto
  moreover have "tabu_current s' = nb"
    using assms scan by (auto simp: tabu_step_def Let_def)
  ultimately show ?thesis by simp
qed

text \<open>
  What one iteration that applies a move records and respects, for a positive tenure.
  For every position the key made of the entry of the new current solution and the entry
  of the best solution gets the expiry \<open>it + tabu_tenure\<close> and counts as tabu in the
  iterations before that expiry. The applied move is not one whose key is tabu in that
  iteration, unless its fitness exceeds the best fitness found so far.
\<close>

lemma tabu_step_records_and_respects:
  assumes "tabu_step labs k tenure it s = Some s'"
    and "length (tabu_current s) = nat k" and "0 < tenure"
  shows "(\<forall>i < nat k. tabu_list s' (tabu_current s' ! i, tabu_best s' ! i)
                        = Some (real it + tenure)) \<and>
         (\<forall>it'. \<forall>i < nat k. is_tabu (tabu_list s') it' (tabu_current s' ! i, tabu_best s' ! i)
                              \<longleftrightarrow> real it' < real it + tenure) \<and>
         (\<forall>i j. i < nat k \<and> j \<notin> set (tabu_current s) \<and>
                 tabu_current s' = (tabu_current s)[i := j] \<and>
                 is_tabu (tabu_list s) it (tabu_current s ! i, j) \<longrightarrow>
                 calculate_fitness labs (tabu_current s') > tabu_best_fitness s)"
proof -
  let ?cur = "tabu_current s"
  obtain nb f where scan: "tabu_scan labs k it s = (Some nb, f)"
    using assms(1) by (auto simp: tabu_step_def split: prod.splits option.splits)
  have s': "s' = \<lparr>tabu_current = nb,
                  tabu_best = (if f > tabu_best_fitness s then nb else tabu_best s),
                  tabu_best_fitness = (if f > tabu_best_fitness s then f else tabu_best_fitness s),
                  tabu_list = tabu_clean it
                     (tabu_record k tenure it nb
                        (if f > tabu_best_fitness s then nb else tabu_best s) (tabu_list s))\<rparr>"
    using assms(1) scan by (simp add: tabu_step_def Let_def)
  have rec: "tabu_list s' (tabu_current s' ! i, tabu_best s' ! i) = Some (real it + tenure)"
    if "i < nat k" for i
    using that assms(3) by (simp add: s' tabu_clean_def tabu_record_lookup)
  have win: "is_tabu (tabu_list s') it' (tabu_current s' ! i, tabu_best s' ! i)
               \<longleftrightarrow> real it' < real it + tenure" if "i < nat k" for i it'
    using rec[OF that] by (auto simp: is_tabu_def)
  from scan have "foldl (tabu_consider labs it s) (None, NegInf)
                    (tabu_moves (length labs) k ?cur) = (Some nb, f)"
    by (simp add: tabu_scan_def)
  from tabu_scan_fold[OF this] obtain m where
    m: "m \<in> set (tabu_moves (length labs) k ?cur)"
    and nb: "nb = ?cur[fst m := snd m]" and f: "f = calculate_fitness labs nb"
    and ok: "\<not> is_tabu (tabu_list s) it (?cur ! fst m, snd m) \<or> f > tabu_best_fitness s"
    by auto
  have asp: "calculate_fitness labs (tabu_current s') > tabu_best_fitness s"
    if "i < nat k" "j \<notin> set ?cur" "tabu_current s' = ?cur[i := j]"
      "is_tabu (tabu_list s) it (?cur ! i, j)" for i j
  proof -
    from that(3) have "?cur[i := j] = ?cur[fst m := snd m]" by (simp add: s' nb)
    moreover have "fst m < length ?cur" "snd m \<notin> set ?cur"
      using m assms(2) by (simp_all add: tabu_moves_member)
    ultimately have "i = fst m \<and> j = snd m"
      using that(1,2) assms(2) by (intro update_move_unique) simp_all
    with that(4) ok have "f > tabu_best_fitness s" by simp
    then show ?thesis by (simp add: s' f)
  qed
  from rec win asp show ?thesis by blast
qed

text \<open>
  After an improving move the best solution is the current one, so every key that the
  iteration writes pairs an index with itself; and no move has such a key, since a move
  brings in an index that is not in the current solution.
\<close>

lemma tabu_improving_step_best_is_current:
  assumes "tabu_step labs k tenure it s = Some s'"
    and "tabu_best_fitness s < calculate_fitness labs (tabu_current s')"
  shows "tabu_best s' = tabu_current s'"
proof -
  obtain nb f where scan: "tabu_scan labs k it s = (Some nb, f)"
    using assms(1) by (auto simp: tabu_step_def split: prod.splits option.splits)
  then have "foldl (tabu_consider labs it s) (None, NegInf)
               (tabu_moves (length labs) k (tabu_current s)) = (Some nb, f)"
    by (simp add: tabu_scan_def)
  from tabu_scan_fold[OF this] have f: "f = calculate_fitness labs nb" by auto
  have cur: "tabu_current s' = nb"
    using assms(1) scan by (auto simp: tabu_step_def Let_def)
  with assms(2) f have "tabu_best_fitness s < f" by simp
  then show ?thesis
    using assms(1) scan by (auto simp: tabu_step_def Let_def)
qed

lemma tabu_move_key_not_self:
  assumes "m \<in> set (tabu_moves n k cur)" and "length cur = nat k"
  shows "cur ! fst m \<noteq> snd m"
proof -
  from assms have "fst m < length cur" "snd m \<notin> set cur"
    by (simp_all add: tabu_moves_member)
  then show ?thesis by (metis nth_mem)
qed

subsection \<open>Canonical order of the output\<close>























end
